theory Spec2Isabelle
  imports Complex_Main "HOL-Library.Sublist"
begin

section \<open>Data model\<close>

text \<open>
  The ledger of the debt management system: customers, debts and payments of several
  tenants, the services that change them inside MongoDB transactions, the sync service
  and the idempotency middleware of the payment route.

  Monetary values are Decimal128 in the store and decimal.js values in the services
  (utils/decimalMath.js). They are modelled as exact rationals: inside the configured range
  (20 significant digits, exponents between -9 and 9) \<open>plus\<close>, \<open>minus\<close> and the comparisons of
  decimal.js are exact. The schema getters hand a stored amount to the services as a
  JavaScript number, which \<open>fromDecimal128\<close> turns back into a decimal; for amounts of at
  most 15 significant digits that round trip is exact too. Object ids are natural
  numbers, dates are milliseconds since the epoch. Requests are handled one after the
  other: the model has no concurrent sessions.
\<close>

type_synonym money = rat
type_synonym oid = nat
type_synonym msec = int

text \<open>config/constants.js\<close>

datatype debt_status = OPEN | PARTIAL | PAID | CANCELLED

datatype aging_bucket = CURRENT | DAYS_0_30 | DAYS_31_60 | DAYS_61_90 | DAYS_90_PLUS

datatype payment_method = CASH | CARD | TRANSFER | WALLET_ADJUSTMENT

datatype user_role = ADMIN | ACCOUNTANT | CASHIER | VIEWER

definition IDEMPOTENCY_KEY_PREFIX :: string where
  "IDEMPOTENCY_KEY_PREFIX = ''idempotency:''"

definition IDEMPOTENCY_TTL_SECONDS :: int where
  "IDEMPOTENCY_TTL_SECONDS = 86400"

text \<open>utils/errorHandler.js, with the errors that mongoose and the driver raise on save.\<close>

datatype error =
    ValidationError
  | UnauthorizedError
  | ForbiddenError
  | NotFoundError
  | ConflictError
  | UnprocessableEntityError
  | DuplicateKeyError
  | PaymentSumError
  | TypeError

text \<open>models/Customer.js (contact list and timestamps left out).\<close>

record customer =
  c_id :: oid
  c_companyId :: oid
  c_name :: string
  creditLimit :: money
  debtBalance :: money
  creditBalance :: money
  lastTransactionAt :: "msec option"
  version :: int
  isActive :: bool
  c_notes :: "string option"

text \<open>models/Debt.js\<close>

record debt_item =
  description :: string
  quantity :: rat
  price :: money
  total :: "money option"

record debt =
  d_id :: oid
  d_companyId :: oid
  d_customerId :: oid
  reference :: string
  totalAmount :: money
  outstandingAmount :: money
  status :: debt_status
  agingBucket :: aging_bucket
  dueAt :: msec
  items :: "debt_item list"
  d_notes :: "string option"

text \<open>models/Payment.js\<close>

record applied_debt =
  debtId :: oid
  app_amount :: money

record payment =
  p_id :: oid
  p_companyId :: oid
  p_customerId :: oid
  amount :: money
  p_method :: payment_method
  appliedToDebts :: "applied_debt list"
  addedToCreditBalance :: money
  idempotencyKey :: "string option"
  paidAt :: msec
  createdBy :: oid
  p_notes :: "string option"

text \<open>models/AuditLog.js (the Mixed payload, ip address and user agent left out).\<close>

datatype audit_action = DEBT_CREATE | DEBT_DELETE | PAYMENT_CREATE

record audit_log =
  al_companyId :: oid
  al_userId :: oid
  al_action :: audit_action
  al_entity :: string
  al_entityId :: oid
  al_timestamp :: msec

text \<open>The four collections of the database.\<close>

record db =
  customers :: "customer list"
  debts :: "debt list"
  payments :: "payment list"
  auditLogs :: "audit_log list"

section \<open>Decimal helpers (utils/decimalMath.js)\<close>

text \<open>
  \<open>isPositive\<close> forwards to decimal.js, whose test is \<open>this.s > 0\<close> on the sign field; the sign
  of zero is 1, so zero passes. No result below depends on how zero is classed.
\<close>

definition isPositive :: "money \<Rightarrow> bool" where
  "isPositive v = (0 \<le> v)"

definition isGreaterThan :: "money \<Rightarrow> money \<Rightarrow> bool" where
  "isGreaterThan a b = (b < a)"

section \<open>Debt methods (models/Debt.js)\<close>

text \<open>\<open>debtSchema.methods.updateStatus\<close>: the document with its status recomputed.\<close>

definition updateStatus :: "debt \<Rightarrow> debt" where
  "updateStatus d =
     (if status d = CANCELLED then d
      else if outstandingAmount d = 0 then d\<lparr>status := PAID\<rparr>
      else if outstandingAmount d < totalAmount d then d\<lparr>status := PARTIAL\<rparr>
      else d\<lparr>status := OPEN\<rparr>)"

text \<open>
  \<open>debtSchema.methods.calculateAgingBucket\<close>. The method reads the clock (\<open>new Date()\<close>); the
  model takes that reading as the argument \<open>now\<close>. \<open>Math.floor\<close> of the quotient is \<open>div\<close> on
  integers, which rounds towards minus infinity.
\<close>

definition MS_PER_DAY :: int where
  "MS_PER_DAY = 1000 * 60 * 60 * 24"

definition daysOverdue :: "msec \<Rightarrow> msec \<Rightarrow> int" where
  "daysOverdue now due = (now - due) div MS_PER_DAY"

definition calculateAgingBucket :: "msec \<Rightarrow> debt \<Rightarrow> aging_bucket" where
  "calculateAgingBucket now d =
     (if status d = PAID \<or> status d = CANCELLED then CURRENT
      else if daysOverdue now (dueAt d) < 0 then CURRENT
      else if daysOverdue now (dueAt d) \<le> 30 then DAYS_0_30
      else if daysOverdue now (dueAt d) \<le> 60 then DAYS_31_60
      else if daysOverdue now (dueAt d) \<le> 90 then DAYS_61_90
      else DAYS_90_PLUS)"

text \<open>The \<open>pre('validate')\<close> hook of the debt schema: every item total is price times quantity.\<close>

definition debt_preValidate :: "debt \<Rightarrow> debt" where
  "debt_preValidate d =
     d\<lparr>items := map (\<lambda>i. i\<lparr>total := Some (price i * quantity i)\<rparr>) (items d)\<rparr>"

section \<open>Store access (mongoose queries and saves)\<close>

text \<open>
  \<open>Model.findOne(filter)\<close> is the first document matching the filter; \<open>doc.save()\<close> of a
  loaded document replaces the stored document with the same \<open>_id\<close>; \<open>save\<close> of a new
  document appends it. Saving a debt runs the schema's \<open>pre('validate')\<close> hook first. The
  field validators of the schemas (required, maxlength, enum) are not modelled: the typed
  records already satisfy the enum constraints and the request schemas bound the lengths.
\<close>

definition findCustomer :: "customer list \<Rightarrow> oid \<Rightarrow> oid \<Rightarrow> customer option" where
  "findCustomer cs cid tenant = find (\<lambda>c. c_id c = cid \<and> c_companyId c = tenant) cs"

definition findCustomerById :: "customer list \<Rightarrow> oid \<Rightarrow> customer option" where
  "findCustomerById cs cid = find (\<lambda>c. c_id c = cid) cs"

definition saveCustomer :: "customer \<Rightarrow> customer list \<Rightarrow> customer list" where
  "saveCustomer c cs = map (\<lambda>x. if c_id x = c_id c then c else x) cs"

definition findDebt :: "debt list \<Rightarrow> oid \<Rightarrow> oid \<Rightarrow> oid \<Rightarrow> debt option" where
  "findDebt ds did tenant cust =
     find (\<lambda>d. d_id d = did \<and> d_companyId d = tenant \<and> d_customerId d = cust) ds"

definition findDebtOfCompany :: "debt list \<Rightarrow> oid \<Rightarrow> oid \<Rightarrow> debt option" where
  "findDebtOfCompany ds did tenant = find (\<lambda>d. d_id d = did \<and> d_companyId d = tenant) ds"

definition saveDebt :: "debt \<Rightarrow> debt list \<Rightarrow> debt list" where
  "saveDebt d ds = map (\<lambda>x. if d_id x = d_id d then debt_preValidate d else x) ds"

definition findPayment :: "payment list \<Rightarrow> oid \<Rightarrow> oid \<Rightarrow> payment option" where
  "findPayment ps pid tenant = find (\<lambda>p. p_id p = pid \<and> p_companyId p = tenant) ps"

text \<open>
  The \<open>pre('validate')\<close> hook of the payment schema: with a non-empty \<open>appliedToDebts\<close>, the
  applied amounts plus \<open>addedToCreditBalance\<close> must be within 0.01 of \<open>amount\<close>. The hook adds
  the amounts as JavaScript numbers; the model adds them exactly.
\<close>

definition payment_preValidate :: "payment \<Rightarrow> error option" where
  "payment_preValidate p =
     (if appliedToDebts p \<noteq> [] then
        (let totalApplied = sum_list (map app_amount (appliedToDebts p));
             tot = totalApplied + addedToCreditBalance p;
             diff = \<bar>tot - amount p\<bar>
         in if diff > 1 / 100 then Some PaymentSumError else None)
      else None)"

text \<open>The sparse unique index on \<open>idempotencyKey\<close>: a second payment with a key already stored is refused.\<close>

definition idempotencyKey_taken :: "payment list \<Rightarrow> string option \<Rightarrow> bool" where
  "idempotencyKey_taken ps k =
     (case k of None \<Rightarrow> False
      | Some v \<Rightarrow> list_ex (\<lambda>q. idempotencyKey q = Some v) ps)"

definition insertPayment :: "payment \<Rightarrow> payment list \<Rightarrow> error + payment list" where
  "insertPayment p ps =
     (case payment_preValidate p of
        Some e \<Rightarrow> Inl e
      | None \<Rightarrow>
          if idempotencyKey_taken ps (idempotencyKey p) then Inl DuplicateKeyError
          else Inr (ps @ [p]))"

text \<open>
  Transactions. Every read and write of a service that passes \<open>session\<close> works on the
  session's copy of the collections; \<open>commitTransaction\<close> installs the copy,
  \<open>abortTransaction\<close> drops it. \<open>AuditLog.logAction\<close> saves without the session, so it
  writes to the committed store at once.
\<close>

definition startTransaction :: "db \<Rightarrow> db" where
  "startTransaction committed = committed"

definition commitTransaction :: "db \<Rightarrow> db \<Rightarrow> db" where
  "commitTransaction committed work =
     committed\<lparr>customers := customers work, debts := debts work, payments := payments work\<rparr>"

definition abortTransaction :: "db \<Rightarrow> db \<Rightarrow> db" where
  "abortTransaction committed work = committed"

definition logAction :: "db \<Rightarrow> audit_log \<Rightarrow> db" where
  "logAction committed entry = committed\<lparr>auditLogs := auditLogs committed @ [entry]\<rparr>"

section \<open>Customer methods (models/Customer.js)\<close>

definition canAcceptDebt :: "customer \<Rightarrow> money \<Rightarrow> bool" where
  "canAcceptDebt c amt = (debtBalance c + amt \<le> creditLimit c)"

definition getRemainingCredit :: "customer \<Rightarrow> money" where
  "getRemainingCredit c = creditLimit c - debtBalance c"

definition incrementVersion :: "customer \<Rightarrow> customer" where
  "incrementVersion c = c\<lparr>version := version c + 1\<rparr>"

section \<open>Debt service (services/debtService.js)\<close>

record debt_data =
  dd_customerId :: "oid option"
  dd_reference :: string
  dd_totalAmount :: money
  dd_dueAt :: "msec option"
  dd_items :: "debt_item list"
  dd_notes :: "string option"

text \<open>The falsy test of the required fields (\<open>!customerId || !reference || ...\<close>).\<close>

definition missingRequiredFields :: "debt_data \<Rightarrow> bool" where
  "missingRequiredFields dd =
     (dd_customerId dd = None \<or> dd_reference dd = [] \<or> dd_totalAmount dd = 0 \<or>
      dd_dueAt dd = None \<or> dd_items dd = [])"

text \<open>
  The body of the \<open>try\<close> block of \<open>createDebt\<close>, on the session's copy. It returns the copy
  as it stands when the block ends, by \<open>return\<close> or by \<open>throw\<close>. \<open>now\<close> is the clock
  reading and \<open>newId\<close> the \<open>_id\<close> that the driver generates for the new document.
\<close>

definition createDebt_session ::
  "db \<Rightarrow> oid \<Rightarrow> debt_data \<Rightarrow> oid \<Rightarrow> msec \<Rightarrow> oid \<Rightarrow> db \<times> (error + debt)" where
  "createDebt_session work companyId dd userId now newId =
     (if missingRequiredFields dd then (work, Inl ValidationError)
      else case findCustomer (customers work) (the (dd_customerId dd)) companyId of
        None \<Rightarrow> (work, Inl NotFoundError)
      | Some cust \<Rightarrow>
          (let debtAmount = dd_totalAmount dd in
           if \<not> canAcceptDebt cust debtAmount then (work, Inl UnprocessableEntityError)
           else
             (let d0 = \<lparr>d_id = newId, d_companyId = companyId,
                        d_customerId = the (dd_customerId dd),
                        reference = dd_reference dd, totalAmount = debtAmount,
                        outstandingAmount = debtAmount, status = OPEN,
                        agingBucket = CURRENT, dueAt = the (dd_dueAt dd),
                        items = dd_items dd, d_notes = dd_notes dd\<rparr>;
                  d1 = debt_preValidate (d0\<lparr>agingBucket := calculateAgingBucket now d0\<rparr>);
                  work1 = work\<lparr>debts := debts work @ [d1]\<rparr>;
                  cust1 = incrementVersion
                            (cust\<lparr>debtBalance := debtBalance cust + debtAmount,
                                  lastTransactionAt := Some now\<rparr>);
                  work2 = work1\<lparr>customers := saveCustomer cust1 (customers work1)\<rparr>
              in (work2, Inr d1))))"

definition createDebt ::
  "db \<Rightarrow> oid \<Rightarrow> debt_data \<Rightarrow> oid \<Rightarrow> msec \<Rightarrow> oid \<Rightarrow> db \<times> (error + debt)" where
  "createDebt committed companyId dd userId now newId =
     (case createDebt_session (startTransaction committed) companyId dd userId now newId of
        (work, Inl e) \<Rightarrow> (abortTransaction committed work, Inl e)
      | (work, Inr d) \<Rightarrow>
          (commitTransaction
             (logAction committed
                \<lparr>al_companyId = companyId, al_userId = userId, al_action = DEBT_CREATE,
                 al_entity = ''Debt'', al_entityId = d_id d, al_timestamp = now\<rparr>)
             work,
           Inr d))"

text \<open>
  \<open>cancelDebt\<close>. The customer is loaded by \<open>findById\<close>; a missing customer makes the read of
  \<open>customer.debtBalance\<close> throw a TypeError.
\<close>

definition cancelDebt_session :: "db \<Rightarrow> oid \<Rightarrow> oid \<Rightarrow> db \<times> (error + debt)" where
  "cancelDebt_session work companyId debtId' =
     (case findDebtOfCompany (debts work) debtId' companyId of
        None \<Rightarrow> (work, Inl NotFoundError)
      | Some d \<Rightarrow>
          if outstandingAmount d \<noteq> totalAmount d then (work, Inl UnprocessableEntityError)
          else
            (let d1 = d\<lparr>status := CANCELLED\<rparr>;
                 work1 = work\<lparr>debts := saveDebt d1 (debts work)\<rparr>
             in case findCustomerById (customers work1) (d_customerId d1) of
                  None \<Rightarrow> (work1, Inl TypeError)
                | Some cust \<Rightarrow>
                    (let cust1 = incrementVersion
                                   (cust\<lparr>debtBalance := debtBalance cust - totalAmount d\<rparr>)
                     in (work1\<lparr>customers := saveCustomer cust1 (customers work1)\<rparr>,
                         Inr (debt_preValidate d1)))))"

definition cancelDebt :: "db \<Rightarrow> oid \<Rightarrow> oid \<Rightarrow> oid \<Rightarrow> msec \<Rightarrow> db \<times> (error + debt)" where
  "cancelDebt committed companyId debtId' userId now =
     (case cancelDebt_session (startTransaction committed) companyId debtId' of
        (work, Inl e) \<Rightarrow> (abortTransaction committed work, Inl e)
      | (work, Inr d) \<Rightarrow>
          (commitTransaction
             (logAction committed
                \<lparr>al_companyId = companyId, al_userId = userId, al_action = DEBT_DELETE,
                 al_entity = ''Debt'', al_entityId = d_id d, al_timestamp = now\<rparr>)
             work,
           Inr d))"

section \<open>Payment service (services/paymentService.js)\<close>

record payment_data =
  pd_amount :: money
  pd_method :: payment_method
  pd_appliedToDebts :: "applied_debt list"
  pd_paidAt :: "msec option"
  pd_notes :: "string option"
  pd_idempotencyKey :: "string option"

text \<open>
  The loop over \<open>appliedToDebts\<close>, in input order. It carries the session's debts and the
  running \<open>totalApplied\<close>; a \<open>throw\<close> leaves the debts as the earlier iterations saved them.
\<close>

fun applyToDebts ::
  "oid \<Rightarrow> oid \<Rightarrow> debt list \<Rightarrow> money \<Rightarrow> applied_debt list \<Rightarrow> debt list \<times> (error + money)" where
  "applyToDebts companyId customerId ds totalApplied [] = (ds, Inr totalApplied)"
| "applyToDebts companyId customerId ds totalApplied (a # rest) =
     (if \<not> isPositive (app_amount a) then (ds, Inl ValidationError)
      else case findDebt ds (debtId a) companyId customerId of
        None \<Rightarrow> (ds, Inl NotFoundError)
      | Some d \<Rightarrow>
          if isGreaterThan (app_amount a) (outstandingAmount d) then (ds, Inl ValidationError)
          else applyToDebts companyId customerId
                 (saveDebt (updateStatus (d\<lparr>outstandingAmount := outstandingAmount d - app_amount a\<rparr>)) ds)
                 (totalApplied + app_amount a) rest)"

definition createPayment_session ::
  "db \<Rightarrow> oid \<Rightarrow> oid \<Rightarrow> payment_data \<Rightarrow> oid \<Rightarrow> msec \<Rightarrow> oid \<Rightarrow> db \<times> (error + payment)" where
  "createPayment_session work companyId customerId pd userId now newId =
     (if \<not> isPositive (pd_amount pd) then (work, Inl ValidationError)
      else case findCustomer (customers work) customerId companyId of
        None \<Rightarrow> (work, Inl NotFoundError)
      | Some cust \<Rightarrow>
          (case applyToDebts companyId customerId (debts work) 0 (pd_appliedToDebts pd) of
             (ds, Inl e) \<Rightarrow> (work\<lparr>debts := ds\<rparr>, Inl e)
           | (ds, Inr totalApplied) \<Rightarrow>
               (let work1 = work\<lparr>debts := ds\<rparr> in
                if isGreaterThan totalApplied (pd_amount pd) then (work1, Inl ValidationError)
                else
                  (let added = pd_amount pd - totalApplied;
                       paid = (case pd_paidAt pd of Some t \<Rightarrow> t | None \<Rightarrow> now);
                       cust1 = incrementVersion
                                 (cust\<lparr>debtBalance := debtBalance cust - totalApplied,
                                       creditBalance := creditBalance cust + added,
                                       lastTransactionAt := Some paid\<rparr>);
                       work2 = work1\<lparr>customers := saveCustomer cust1 (customers work1)\<rparr>;
                       p = \<lparr>p_id = newId, p_companyId = companyId, p_customerId = customerId,
                            amount = pd_amount pd, p_method = pd_method pd,
                            appliedToDebts = pd_appliedToDebts pd,
                            addedToCreditBalance = added,
                            idempotencyKey = pd_idempotencyKey pd, paidAt = paid,
                            createdBy = userId, p_notes = pd_notes pd\<rparr>
                   in case insertPayment p (payments work2) of
                        Inl e \<Rightarrow> (work2, Inl e)
                      | Inr ps \<Rightarrow> (work2\<lparr>payments := ps\<rparr>, Inr p)))))"

definition createPayment ::
  "db \<Rightarrow> oid \<Rightarrow> oid \<Rightarrow> payment_data \<Rightarrow> oid \<Rightarrow> msec \<Rightarrow> oid \<Rightarrow> db \<times> (error + payment)" where
  "createPayment committed companyId customerId pd userId now newId =
     (case createPayment_session (startTransaction committed) companyId customerId pd userId now newId of
        (work, Inl e) \<Rightarrow> (abortTransaction committed work, Inl e)
      | (work, Inr p) \<Rightarrow>
          (commitTransaction
             (logAction committed
                \<lparr>al_companyId = companyId, al_userId = userId, al_action = PAYMENT_CREATE,
                 al_entity = ''Payment'', al_entityId = p_id p, al_timestamp = now\<rparr>)
             work,
           Inr p))"

section \<open>Sync service (services/syncService.js)\<close>

text \<open>
  The \<open>data\<close> object of a changeset: for every schema path of the three models, the value to
  assign when the object has that key. \<open>Object.assign(document, data)\<close> sets the paths the
  document's schema has; \<open>version\<close> is a schema path of Customer only, on a debt or a payment
  it becomes a plain property of the in-memory document that \<open>save\<close> does not store.
\<close>

record sync_data =
  s_companyId :: "oid option"
  s_customerId :: "oid option"
  s_name :: "string option"
  s_creditLimit :: "money option"
  s_debtBalance :: "money option"
  s_creditBalance :: "money option"
  s_lastTransactionAt :: "msec option"
  s_version :: "int option"
  s_isActive :: "bool option"
  s_notes :: "string option"
  s_reference :: "string option"
  s_totalAmount :: "money option"
  s_outstandingAmount :: "money option"
  s_status :: "debt_status option"
  s_agingBucket :: "aging_bucket option"
  s_dueAt :: "msec option"
  s_items :: "debt_item list option"
  s_amount :: "money option"
  s_method :: "payment_method option"
  s_appliedToDebts :: "applied_debt list option"
  s_addedToCreditBalance :: "money option"
  s_idempotencyKey :: "string option"
  s_paidAt :: "msec option"
  s_createdBy :: "oid option"

record changeset =
  entity :: string
  entityId :: oid
  cs_version :: "int option"
  cs_data :: sync_data

definition pick :: "'a option \<Rightarrow> 'a \<Rightarrow> 'a" where
  "pick new old = (case new of None \<Rightarrow> old | Some v \<Rightarrow> v)"

definition pickOpt :: "'a option \<Rightarrow> 'a option \<Rightarrow> 'a option" where
  "pickOpt new old = (case new of None \<Rightarrow> old | Some v \<Rightarrow> Some v)"

definition assignCustomer :: "sync_data \<Rightarrow> customer \<Rightarrow> customer" where
  "assignCustomer sd c =
     c\<lparr>c_companyId := pick (s_companyId sd) (c_companyId c),
       c_name := pick (s_name sd) (c_name c),
       creditLimit := pick (s_creditLimit sd) (creditLimit c),
       debtBalance := pick (s_debtBalance sd) (debtBalance c),
       creditBalance := pick (s_creditBalance sd) (creditBalance c),
       lastTransactionAt := pickOpt (s_lastTransactionAt sd) (lastTransactionAt c),
       version := pick (s_version sd) (version c),
       isActive := pick (s_isActive sd) (isActive c),
       c_notes := pickOpt (s_notes sd) (c_notes c)\<rparr>"

definition assignDebt :: "sync_data \<Rightarrow> debt \<Rightarrow> debt" where
  "assignDebt sd d =
     d\<lparr>d_companyId := pick (s_companyId sd) (d_companyId d),
       d_customerId := pick (s_customerId sd) (d_customerId d),
       reference := pick (s_reference sd) (reference d),
       totalAmount := pick (s_totalAmount sd) (totalAmount d),
       outstandingAmount := pick (s_outstandingAmount sd) (outstandingAmount d),
       status := pick (s_status sd) (status d),
       agingBucket := pick (s_agingBucket sd) (agingBucket d),
       dueAt := pick (s_dueAt sd) (dueAt d),
       items := pick (s_items sd) (items d),
       d_notes := pickOpt (s_notes sd) (d_notes d)\<rparr>"

definition assignPayment :: "sync_data \<Rightarrow> payment \<Rightarrow> payment" where
  "assignPayment sd p =
     p\<lparr>p_companyId := pick (s_companyId sd) (p_companyId p),
       p_customerId := pick (s_customerId sd) (p_customerId p),
       amount := pick (s_amount sd) (amount p),
       p_method := pick (s_method sd) (p_method p),
       appliedToDebts := pick (s_appliedToDebts sd) (appliedToDebts p),
       addedToCreditBalance := pick (s_addedToCreditBalance sd) (addedToCreditBalance p),
       idempotencyKey := pickOpt (s_idempotencyKey sd) (idempotencyKey p),
       paidAt := pick (s_paidAt sd) (paidAt p),
       createdBy := pick (s_createdBy sd) (createdBy p),
       p_notes := pickOpt (s_notes sd) (p_notes p)\<rparr>"

text \<open>
  Saving a loaded payment: the \<open>pre('validate')\<close> hook, then the unique index against the
  other payments.
\<close>

definition savePayment :: "payment \<Rightarrow> payment list \<Rightarrow> error + payment list" where
  "savePayment p ps =
     (case payment_preValidate p of
        Some e \<Rightarrow> Inl e
      | None \<Rightarrow>
          if idempotencyKey_taken (filter (\<lambda>q. p_id q \<noteq> p_id p) ps) (idempotencyKey p)
          then Inl DuplicateKeyError
          else Inr (map (\<lambda>x. if p_id x = p_id p then p else x) ps))"

datatype document = CustomerDoc customer | DebtDoc debt | PaymentDoc payment

datatype conflict_reason = DocumentNotFound | VersionMismatch | ErrorMessage error

record conflict =
  cf_entityId :: oid
  cf_entity :: string
  cf_reason :: conflict_reason
  cf_serverVersion :: "int option"
  cf_clientVersion :: "int option"
  cf_serverData :: "document option"
  cf_error :: bool

record applied_change =
  ap_entityId :: oid
  ap_entity :: string
  ap_newVersion :: "int option"

datatype sync_outcome = Applied applied_change | Conflict conflict

definition notFoundConflict :: "changeset \<Rightarrow> conflict" where
  "notFoundConflict c =
     \<lparr>cf_entityId = entityId c, cf_entity = entity c, cf_reason = DocumentNotFound,
               cf_serverVersion = None, cf_clientVersion = cs_version c,
               cf_serverData = None, cf_error = False\<rparr>"

definition versionConflict :: "changeset \<Rightarrow> int \<Rightarrow> document \<Rightarrow> conflict" where
  "versionConflict c serverVersion snapshot =
     \<lparr>cf_entityId = entityId c, cf_entity = entity c, cf_reason = VersionMismatch,
               cf_serverVersion = Some serverVersion, cf_clientVersion = cs_version c,
               cf_serverData = Some snapshot, cf_error = False\<rparr>"

definition errorConflict :: "changeset \<Rightarrow> error \<Rightarrow> conflict" where
  "errorConflict c e =
     \<lparr>cf_entityId = entityId c, cf_entity = entity c, cf_reason = ErrorMessage e,
               cf_serverVersion = None, cf_clientVersion = None,
               cf_serverData = None, cf_error = True\<rparr>"

definition appliedChange :: "changeset \<Rightarrow> int option \<Rightarrow> applied_change" where
  "appliedChange c v = \<lparr>ap_entityId = entityId c, ap_entity = entity c, ap_newVersion = v\<rparr>"

text \<open>
  One iteration of the loop of \<open>pushChanges\<close>. Only the customer schema has a \<open>version\<close>
  path and an \<open>incrementVersion\<close> method: for a debt or a payment \<open>document.version\<close> is
  \<open>undefined\<close>, the version test is skipped and the change is applied.
\<close>

definition pushOne :: "db \<Rightarrow> oid \<Rightarrow> changeset \<Rightarrow> db \<times> sync_outcome" where
  "pushOne store tenant c =
     (if entity c = ''Customer'' then
        (case findCustomer (customers store) (entityId c) tenant of
           None \<Rightarrow> (store, Conflict (notFoundConflict c))
         | Some doc \<Rightarrow>
             if cs_version c \<noteq> Some (version doc)
             then (store, Conflict (versionConflict c (version doc) (CustomerDoc doc)))
             else
               (let doc1 = incrementVersion (assignCustomer (cs_data c) doc)
                in (store\<lparr>customers := saveCustomer doc1 (customers store)\<rparr>,
                    Applied (appliedChange c (Some (version doc1))))))
      else if entity c = ''Debt'' then
        (case findDebtOfCompany (debts store) (entityId c) tenant of
           None \<Rightarrow> (store, Conflict (notFoundConflict c))
         | Some doc \<Rightarrow>
             (store\<lparr>debts := saveDebt (assignDebt (cs_data c) doc) (debts store)\<rparr>,
              Applied (appliedChange c (s_version (cs_data c)))))
      else if entity c = ''Payment'' then
        (case findPayment (payments store) (entityId c) tenant of
           None \<Rightarrow> (store, Conflict (notFoundConflict c))
         | Some doc \<Rightarrow>
             (case savePayment (assignPayment (cs_data c) doc) (payments store) of
                Inl e \<Rightarrow> (store, Conflict (errorConflict c e))
              | Inr ps \<Rightarrow> (store\<lparr>payments := ps\<rparr>,
                         Applied (appliedChange c (s_version (cs_data c))))))
      else (store, Conflict (errorConflict c ValidationError)))"

fun pushLoop :: "db \<Rightarrow> oid \<Rightarrow> changeset list \<Rightarrow> db \<times> sync_outcome list" where
  "pushLoop store tenant [] = (store, [])"
| "pushLoop store tenant (c # rest) =
     (case pushOne store tenant c of
        (store1, out) \<Rightarrow>
          (case pushLoop store1 tenant rest of (store2, outs) \<Rightarrow> (store2, out # outs)))"

record sync_results =
  applied :: "applied_change list"
  conflicts :: "conflict list"

fun appliedOf :: "sync_outcome list \<Rightarrow> applied_change list" where
  "appliedOf [] = []"
| "appliedOf (Applied a # rest) = a # appliedOf rest"
| "appliedOf (Conflict c # rest) = appliedOf rest"

fun conflictsOf :: "sync_outcome list \<Rightarrow> conflict list" where
  "conflictsOf [] = []"
| "conflictsOf (Applied a # rest) = conflictsOf rest"
| "conflictsOf (Conflict c # rest) = c # conflictsOf rest"

definition pushChanges :: "db \<Rightarrow> oid \<Rightarrow> changeset list \<Rightarrow> oid \<Rightarrow> db \<times> (error + sync_results)" where
  "pushChanges store tenant changesets userId =
     (if changesets = [] then (store, Inl ValidationError)
      else case pushLoop store tenant changesets of
        (store1, outs) \<Rightarrow>
          (store1, Inr \<lparr>applied = appliedOf outs, conflicts = conflictsOf outs\<rparr>))"

text \<open>
  The document that \<open>Model.findOne\<close> loads for a changeset, and its \<open>version\<close> property:
  a number on a customer, \<open>undefined\<close> on a debt and on a payment.
\<close>

definition findDocument :: "db \<Rightarrow> oid \<Rightarrow> changeset \<Rightarrow> document option" where
  "findDocument store tenant c =
     (if entity c = ''Customer''
      then map_option CustomerDoc (findCustomer (customers store) (entityId c) tenant)
      else if entity c = ''Debt''
      then map_option DebtDoc (findDebtOfCompany (debts store) (entityId c) tenant)
      else if entity c = ''Payment''
      then map_option PaymentDoc (findPayment (payments store) (entityId c) tenant)
      else None)"

fun documentVersion :: "document \<Rightarrow> int option" where
  "documentVersion (CustomerDoc c) = Some (version c)"
| "documentVersion (DebtDoc d) = None"
| "documentVersion (PaymentDoc p) = None"

section \<open>Payment route (routes/paymentRoutes.js)\<close>

text \<open>
  \<open>POST /payments\<close> runs, after authentication and tenant isolation, the idempotency
  middleware, the Joi validation of the body, the role check and the controller. The
  response is a status code with a body; \<open>populate\<close> resolves the customer and the debts
  of the created payment for the body.
\<close>

record customer_view =
  cv_name :: string
  cv_debtBalance :: money
  cv_creditBalance :: money

record debt_view =
  dv_reference :: string
  dv_totalAmount :: money
  dv_outstandingAmount :: money
  dv_status :: debt_status

record payment_view =
  pv_payment :: payment
  pv_customer :: "customer_view option"
  pv_debts :: "debt_view option list"

datatype response_body = Success payment_view | Failure error

record response =
  statusCode :: nat
  r_body :: response_body

record payment_body =
  b_customerId :: oid
  b_amount :: money
  b_method :: payment_method
  b_appliedToDebts :: "applied_debt list"
  b_paidAt :: "msec option"
  b_notes :: "string option"

record http_request =
  h_idempotencyKey :: "string option"
  h_companyId :: oid
  h_userId :: oid
  h_role :: user_role
  h_body :: payment_body

definition populate :: "db \<Rightarrow> payment \<Rightarrow> payment_view" where
  "populate store p =
     \<lparr>pv_payment = p,
      pv_customer =
        map_option
          (\<lambda>c. \<lparr>cv_name = c_name c, cv_debtBalance = debtBalance c,
                cv_creditBalance = creditBalance c\<rparr>)
          (findCustomerById (customers store) (p_customerId p)),
      pv_debts =
        map (\<lambda>a. map_option
                    (\<lambda>d. \<lparr>dv_reference = reference d, dv_totalAmount = totalAmount d,
                          dv_outstandingAmount = outstandingAmount d, dv_status = status d\<rparr>)
                    (find (\<lambda>d. d_id d = debtId a) (debts store)))
            (appliedToDebts p)\<rparr>"

text \<open>The status codes of the error classes, as the global error handler sends them.\<close>

fun errorStatus :: "error \<Rightarrow> nat" where
  "errorStatus ValidationError = 400"
| "errorStatus UnauthorizedError = 401"
| "errorStatus ForbiddenError = 403"
| "errorStatus NotFoundError = 404"
| "errorStatus ConflictError = 409"
| "errorStatus UnprocessableEntityError = 422"
| "errorStatus DuplicateKeyError = 409"
| "errorStatus PaymentSumError = 500"
| "errorStatus TypeError = 500"

definition errorResponse :: "error \<Rightarrow> response" where
  "errorResponse e = \<lparr>statusCode = errorStatus e, r_body = Failure e\<rparr>"

text \<open>
  The key format test of the middleware: the regular expression
  \<open>/^[0-9a-f]{8}-[0-9a-f]{4}-[0-9a-f]{4}-[0-9a-f]{4}-[0-9a-f]{12}$/i\<close>.
\<close>

definition isHexChar :: "char \<Rightarrow> bool" where
  "isHexChar ch = (ch \<in> set ''0123456789abcdefABCDEF'')"

definition isValidIdempotencyKey :: "string \<Rightarrow> bool" where
  "isValidIdempotencyKey k =
     (length k = 36 \<and>
      list_all isHexChar (take 8 k) \<and> k ! 8 = CHR ''-'' \<and>
      list_all isHexChar (take 4 (drop 9 k)) \<and> k ! 13 = CHR ''-'' \<and>
      list_all isHexChar (take 4 (drop 14 k)) \<and> k ! 18 = CHR ''-'' \<and>
      list_all isHexChar (take 4 (drop 19 k)) \<and> k ! 23 = CHR ''-'' \<and>
      list_all isHexChar (drop 24 k))"

text \<open>
  Redis, as far as the middleware uses it: a key holds a value until its expiry time.
  \<open>setex\<close> stores the value with a time to live in seconds; \<open>get\<close> returns it while the
  clock is before the expiry.
\<close>

type_synonym redis = "(string \<times> msec \<times> response) list"

definition redis_get :: "redis \<Rightarrow> string \<Rightarrow> msec \<Rightarrow> response option" where
  "redis_get r k now =
     (case map_of r k of
        None \<Rightarrow> None
      | Some (expiry, v) \<Rightarrow> if now < expiry then Some v else None)"

definition redis_setex :: "redis \<Rightarrow> string \<Rightarrow> int \<Rightarrow> response \<Rightarrow> msec \<Rightarrow> redis" where
  "redis_setex r k ttl v now = (k, now + ttl * 1000, v) # r"

text \<open>
  The \<open>res.json\<close> that the middleware installs: a response with a 2xx status is cached
  under the key. The write is not awaited and its failure is only logged; \<open>cacheOk\<close> says
  whether it succeeds.
\<close>

definition cachingJson :: "redis \<Rightarrow> bool \<Rightarrow> string \<Rightarrow> msec \<Rightarrow> response \<Rightarrow> redis" where
  "cachingJson r cacheOk redisKey now resp =
     (if 200 \<le> statusCode resp \<and> statusCode resp < 300 \<and> cacheOk
      then redis_setex r redisKey IDEMPOTENCY_TTL_SECONDS resp now
      else r)"

text \<open>The Joi schema of the body, for the fields the typed record leaves open.\<close>

definition createPaymentSchema :: "payment_body \<Rightarrow> bool" where
  "createPaymentSchema b =
     (0 < b_amount b \<and> list_all (\<lambda>a. 0 < app_amount a) (b_appliedToDebts b) \<and>
      (case b_notes b of None \<Rightarrow> True | Some n \<Rightarrow> length n \<le> 500))"

definition authorize :: "user_role \<Rightarrow> bool" where
  "authorize role = (role = ADMIN \<or> role = ACCOUNTANT \<or> role = CASHIER)"

definition paymentController ::
  "db \<Rightarrow> http_request \<Rightarrow> string \<Rightarrow> msec \<Rightarrow> oid \<Rightarrow> db \<times> response" where
  "paymentController store req key now newId =
     (let b = h_body req;
          pd = \<lparr>pd_amount = b_amount b, pd_method = b_method b,
                pd_appliedToDebts = b_appliedToDebts b, pd_paidAt = b_paidAt b,
                pd_notes = b_notes b, pd_idempotencyKey = Some key\<rparr>
      in case createPayment store (h_companyId req) (b_customerId b) pd (h_userId req) now newId of
           (store1, Inl e) \<Rightarrow> (store1, errorResponse e)
         | (store1, Inr p) \<Rightarrow>
             (store1, \<lparr>statusCode = 201, r_body = Success (populate store1 p)\<rparr>))"

definition postPayment ::
  "redis \<times> db \<Rightarrow> bool \<Rightarrow> msec \<Rightarrow> oid \<Rightarrow> http_request \<Rightarrow> (redis \<times> db) \<times> response" where
  "postPayment st cacheOk now newId req =
     (case st of (r, store) \<Rightarrow>
        (case h_idempotencyKey req of
           None \<Rightarrow> (st, errorResponse ValidationError)
         | Some key \<Rightarrow>
             if key = [] \<or> \<not> isValidIdempotencyKey key then (st, errorResponse ValidationError)
             else
               (let redisKey = IDEMPOTENCY_KEY_PREFIX @ key in
                case redis_get r redisKey now of
                  Some cached \<Rightarrow> (st, cached)
                | None \<Rightarrow>
                    if \<not> createPaymentSchema (h_body req)
                    then ((cachingJson r cacheOk redisKey now (errorResponse ValidationError), store),
                          errorResponse ValidationError)
                    else if \<not> authorize (h_role req)
                    then ((cachingJson r cacheOk redisKey now (errorResponse ForbiddenError), store),
                          errorResponse ForbiddenError)
                    else
                      (case paymentController store req key now newId of
                         (store1, resp) \<Rightarrow>
                           ((cachingJson r cacheOk redisKey now resp, store1), resp)))))"

section \<open>The balance invariant of the ledger\<close>

text \<open>
  The sum of the outstanding amounts of a customer's debts that are not cancelled, and
  the invariant that every customer's \<open>debtBalance\<close> equals it.
\<close>

definition outstandingOf :: "debt list \<Rightarrow> oid \<Rightarrow> money" where
  "outstandingOf ds cid =
     sum_list (map outstandingAmount
       (filter (\<lambda>d. d_customerId d = cid \<and> status d \<noteq> CANCELLED) ds))"

definition balanceInvariant :: "db \<Rightarrow> bool" where
  "balanceInvariant store =
     list_all (\<lambda>c. debtBalance c = outstandingOf (debts store) (c_id c)) (customers store)"

section \<open>Example data\<close>


definition ex_debt :: debt where
  "ex_debt =
     \<lparr>d_id = 1, d_companyId = 1, d_customerId = 1, reference = ''INV-1'',
      totalAmount = 500, outstandingAmount = 500, status = OPEN, agingBucket = CURRENT,
      dueAt = 1000, items = [], d_notes = None\<rparr>"

definition ex_debt2 :: debt where
  "ex_debt2 =
     \<lparr>d_id = 2, d_companyId = 1, d_customerId = 1, reference = ''INV-2'',
      totalAmount = 600, outstandingAmount = 400, status = PARTIAL, agingBucket = CURRENT,
      dueAt = 2000, items = [], d_notes = None\<rparr>"

definition ex_customer :: customer where
  "ex_customer =
     \<lparr>c_id = 1, c_companyId = 1, c_name = ''Ali'', creditLimit = 1000, debtBalance = 900,
      creditBalance = 0, lastTransactionAt = None, version = 4, isActive = True,
      c_notes = None\<rparr>"

definition ex_store :: db where
  "ex_store =
     \<lparr>customers = [ex_customer], debts = [ex_debt, ex_debt2], payments = [], auditLogs = []\<rparr>"

definition ex_debt_data :: "money \<Rightarrow> debt_data" where
  "ex_debt_data amt =
     \<lparr>dd_customerId = Some 1, dd_reference = ''INV-3'', dd_totalAmount = amt,
      dd_dueAt = Some 5000,
      dd_items = [\<lparr>description = ''goods'', quantity = 2, price = 50, total = None\<rparr>],
      dd_notes = None\<rparr>"

definition ex_payment_data :: "money \<Rightarrow> applied_debt list \<Rightarrow> payment_data" where
  "ex_payment_data amt apps =
     \<lparr>pd_amount = amt, pd_method = CASH, pd_appliedToDebts = apps, pd_paidAt = None,
      pd_notes = None, pd_idempotencyKey = None\<rparr>"

definition ex_store_inactive :: db where
  "ex_store_inactive = ex_store\<lparr>customers := [ex_customer\<lparr>isActive := False\<rparr>]\<rparr>"

definition ex_payment :: payment where
  "ex_payment =
     \<lparr>p_id = 10, p_companyId = 1, p_customerId = 1, amount = 500, p_method = CASH,
      appliedToDebts = [\<lparr>debtId = 2, app_amount = 300\<rparr>], addedToCreditBalance = 200,
      idempotencyKey = None, paidAt = 0, createdBy = 7, p_notes = None\<rparr>"

definition ex_store_paid :: db where
  "ex_store_paid =
     \<lparr>customers = [ex_customer\<lparr>debtBalance := 600, creditBalance := 200,
                              lastTransactionAt := Some 0, version := 5\<rparr>],
      debts = [ex_debt, ex_debt2\<lparr>outstandingAmount := 100\<rparr>],
      payments = [ex_payment],
      auditLogs =
        [\<lparr>al_companyId = 1, al_userId = 7, al_action = PAYMENT_CREATE,
          al_entity = ''Payment'', al_entityId = 10, al_timestamp = 0\<rparr>]\<rparr>"

definition ex_no_data :: sync_data where
  "ex_no_data =
     \<lparr>s_companyId = None, s_customerId = None, s_name = None, s_creditLimit = None,
      s_debtBalance = None, s_creditBalance = None, s_lastTransactionAt = None,
      s_version = None, s_isActive = None, s_notes = None, s_reference = None,
      s_totalAmount = None, s_outstandingAmount = None, s_status = None,
      s_agingBucket = None, s_dueAt = None, s_items = None, s_amount = None,
      s_method = None, s_appliedToDebts = None, s_addedToCreditBalance = None,
      s_idempotencyKey = None, s_paidAt = None, s_createdBy = None\<rparr>"

definition ex_changeset :: "string \<Rightarrow> oid \<Rightarrow> int option \<Rightarrow> sync_data \<Rightarrow> changeset" where
  "ex_changeset e i v sd = \<lparr>entity = e, entityId = i, cs_version = v, cs_data = sd\<rparr>"

definition ex_key :: string where
  "ex_key = ''550e8400-e29b-41d4-a716-446655440000''"

definition ex_request :: "money \<Rightarrow> applied_debt list \<Rightarrow> http_request" where
  "ex_request amt apps =
     \<lparr>h_idempotencyKey = Some ex_key, h_companyId = 1, h_userId = 7, h_role = CASHIER,
      h_body = \<lparr>b_customerId = 1, b_amount = amt, b_method = CASH, b_appliedToDebts = apps,
                b_paidAt = None, b_notes = None\<rparr>\<rparr>"

section \<open>Lookup and save\<close>

lemma findCustomer_Some:
  "findCustomer cs cid t = Some c \<Longrightarrow> c \<in> set cs \<and> c_id c = cid \<and> c_companyId c = t"
  unfolding findCustomer_def
  by (induction cs) (auto split: if_splits)

lemma findCustomer_saveCustomer:
  "findCustomer cs cid t = Some c \<Longrightarrow> c_id c1 = cid \<Longrightarrow> c_companyId c1 = t \<Longrightarrow>
   findCustomer (saveCustomer c1 cs) cid t = Some c1"
  unfolding findCustomer_def saveCustomer_def
  by (induction cs) (auto split: if_splits)

lemma findDebt_Some:
  "findDebt ds i t c = Some d \<Longrightarrow>
   d \<in> set ds \<and> d_id d = i \<and> d_companyId d = t \<and> d_customerId d = c"
  unfolding findDebt_def
  by (induction ds) (auto split: if_splits)

lemma debt_preValidate_fields:
  "d_id (debt_preValidate d) = d_id d \<and>
   d_companyId (debt_preValidate d) = d_companyId d \<and>
   d_customerId (debt_preValidate d) = d_customerId d \<and>
   outstandingAmount (debt_preValidate d) = outstandingAmount d \<and>
   totalAmount (debt_preValidate d) = totalAmount d \<and>
   status (debt_preValidate d) = status d"
  by (simp add: debt_preValidate_def)

lemma updateStatus_fields:
  "d_id (updateStatus d) = d_id d \<and>
   d_companyId (updateStatus d) = d_companyId d \<and>
   d_customerId (updateStatus d) = d_customerId d \<and>
   outstandingAmount (updateStatus d) = outstandingAmount d \<and>
   totalAmount (updateStatus d) = totalAmount d"
  by (simp add: updateStatus_def)


section \<open>The loop over the applied debts\<close>





section \<open>Outcomes of the ledger operations\<close>


lemma createDebt_accepted:
  assumes "\<not> missingRequiredFields dd"
    and "findCustomer (customers st) (the (dd_customerId dd)) tenant = Some c"
    and "debtBalance c + dd_totalAmount dd \<le> creditLimit c"
  shows "\<exists>st' d. createDebt st tenant dd uid now nid = (st', Inr d) \<and>
           totalAmount d = dd_totalAmount dd \<and> outstandingAmount d = dd_totalAmount dd \<and>
           status d = OPEN \<and> d_customerId d = the (dd_customerId dd) \<and>
           debts st' = debts st @ [d] \<and> payments st' = payments st \<and>
           findCustomer (customers st') (the (dd_customerId dd)) tenant =
             Some (c\<lparr>debtBalance := debtBalance c + dd_totalAmount dd,
                     lastTransactionAt := Some now, version := version c + 1\<rparr>)"
proof -
  from assms(2) have key: "c_id c = the (dd_customerId dd)" "c_companyId c = tenant"
    using findCustomer_Some by blast+
  have "findCustomer
          (saveCustomer (c\<lparr>debtBalance := debtBalance c + dd_totalAmount dd,
                           lastTransactionAt := Some now, version := version c + 1\<rparr>)
             (customers st)) (the (dd_customerId dd)) tenant =
        Some (c\<lparr>debtBalance := debtBalance c + dd_totalAmount dd,
                lastTransactionAt := Some now, version := version c + 1\<rparr>)"
    by (rule findCustomer_saveCustomer [OF assms(2)]) (simp_all add: key)
  with assms show ?thesis
    by (simp add: createDebt_def createDebt_session_def startTransaction_def
        commitTransaction_def logAction_def canAcceptDebt_def incrementVersion_def
        debt_preValidate_def Let_def)
qed

lemma createDebt_failure_keeps_store:
  "createDebt st tenant dd uid now nid = (st', Inl e) \<Longrightarrow> st' = st"
  by (auto simp: createDebt_def abortTransaction_def split: prod.splits sum.splits)

lemma cancelDebt_failure_keeps_store:
  "cancelDebt st tenant i uid now = (st', Inl e) \<Longrightarrow> st' = st"
  by (auto simp: cancelDebt_def abortTransaction_def split: prod.splits sum.splits)

lemma createPayment_failure_keeps_store:
  "createPayment st tenant cid pd uid now nid = (st', Inl e) \<Longrightarrow> st' = st"
  by (auto simp: createPayment_def abortTransaction_def split: prod.splits sum.splits)

text \<open>What a successful \<open>createPayment\<close> has done.\<close>

lemma createPayment_success:
  assumes "createPayment st tenant cid pd uid now nid = (st', Inr p)"
  shows "\<exists>cust ds tot.
           findCustomer (customers st) cid tenant = Some cust \<and>
           applyToDebts tenant cid (debts st) 0 (pd_appliedToDebts pd) = (ds, Inr tot) \<and>
           tot \<le> pd_amount pd \<and>
           amount p = pd_amount pd \<and> appliedToDebts p = pd_appliedToDebts pd \<and>
           addedToCreditBalance p = pd_amount pd - tot \<and>
           idempotencyKey p = pd_idempotencyKey pd \<and> p_id p = nid \<and>
           payment_preValidate p = None \<and>
           debts st' = ds \<and> payments st' = payments st @ [p] \<and>
           customers st' =
             saveCustomer
               (cust\<lparr>debtBalance := debtBalance cust - tot,
                      creditBalance := creditBalance cust + (pd_amount pd - tot),
                      lastTransactionAt :=
                        Some (case pd_paidAt pd of Some t \<Rightarrow> t | None \<Rightarrow> now),
                      version := version cust + 1\<rparr>)
               (customers st)"
  using assms
  by (auto simp: createPayment_def createPayment_session_def startTransaction_def
      commitTransaction_def logAction_def insertPayment_def isGreaterThan_def
      incrementVersion_def Let_def
      split: prod.splits sum.splits if_splits option.splits)

section \<open>The sync loop\<close>

lemma pushLoop_append:
  "pushLoop st t (xs @ ys) =
     (case pushLoop st t xs of
        (st1, outs1) \<Rightarrow> (case pushLoop st1 t ys of (st2, outs2) \<Rightarrow> (st2, outs1 @ outs2)))"
  by (induction xs arbitrary: st) (auto split: prod.splits)

lemma appliedOf_append: "appliedOf (xs @ ys) = appliedOf xs @ appliedOf ys"
  by (induction xs rule: appliedOf.induct) simp_all

lemma conflictsOf_append: "conflictsOf (xs @ ys) = conflictsOf xs @ conflictsOf ys"
  by (induction xs rule: conflictsOf.induct) simp_all

lemma pushOne_version_conflict:
  assumes "findDocument st t c = Some doc"
    and "documentVersion doc = Some v"
    and "cs_version c \<noteq> Some v"
  shows "pushOne st t c = (st, Conflict (versionConflict c v doc))"
proof (cases doc)
  case (CustomerDoc cust)
  with assms(1) have "entity c = ''Customer''"
    and "findCustomer (customers st) (entityId c) t = Some cust"
    by (auto simp: findDocument_def split: if_splits)
  with assms(2,3) CustomerDoc show ?thesis
    by (simp add: pushOne_def)
next
  case (DebtDoc d)
  with assms(2) show ?thesis by simp
next
  case (PaymentDoc p)
  with assms(2) show ?thesis by simp
qed

lemma savePayment_ids:
  "savePayment p ps = Inr ps' \<Longrightarrow> map p_id ps' = map p_id ps"
  by (auto simp: savePayment_def split: option.splits if_splits)

lemma pushOne_payments:
  "pushOne st t c = (st', out) \<Longrightarrow>
   map p_id (payments st') = map p_id (payments st) \<and>
   (entity c \<noteq> ''Payment'' \<longrightarrow> payments st' = payments st)"
  by (auto simp: pushOne_def Let_def dest: savePayment_ids
      split: if_splits option.splits sum.splits)

lemma pushLoop_payments:
  "pushLoop st t cs = (st', outs) \<Longrightarrow>
   map p_id (payments st') = map p_id (payments st) \<and>
   ((\<forall>c\<in>set cs. entity c \<noteq> ''Payment'') \<longrightarrow> payments st' = payments st)"
proof (induction cs arbitrary: st st' outs)
  case Nil
  then show ?case by simp
next
  case (Cons c rest)
  obtain st1 out where one: "pushOne st t c = (st1, out)" by (cases "pushOne st t c")
  obtain st2 outs2 where more: "pushLoop st1 t rest = (st2, outs2)"
    by (cases "pushLoop st1 t rest")
  from Cons.prems one more have "st' = st2" by simp
  with pushOne_payments [OF one] Cons.IH [OF more] show ?case by simp
qed

section \<open>The payment route\<close>

lemma errorStatus_not_2xx: "\<not> (200 \<le> errorStatus e \<and> errorStatus e < 300)"
  by (cases e) simp_all

lemma paymentController_cases:
  assumes "paymentController store req key now nid = (store1, resp)"
  shows "(\<exists>e. resp = errorResponse e \<and> store1 = store) \<or> statusCode resp = 201"
proof -
  let ?pd = "\<lparr>pd_amount = b_amount (h_body req), pd_method = b_method (h_body req),
              pd_appliedToDebts = b_appliedToDebts (h_body req), pd_paidAt = b_paidAt (h_body req),
              pd_notes = b_notes (h_body req), pd_idempotencyKey = Some key\<rparr>"
  obtain st2 r where run:
    "createPayment store (h_companyId req) (b_customerId (h_body req)) ?pd (h_userId req) now nid
       = (st2, r)"
    by (cases "createPayment store (h_companyId req) (b_customerId (h_body req)) ?pd
                 (h_userId req) now nid")
  show ?thesis
  proof (cases r)
    case (Inl e)
    with run createPayment_failure_keeps_store have "st2 = store" by blast
    with assms run Inl show ?thesis by (auto simp: paymentController_def Let_def)
  next
    case (Inr p)
    with assms run show ?thesis by (auto simp: paymentController_def Let_def)
  qed
qed

text \<open>What a request that misses the cache leaves behind.\<close>

lemma postPayment_miss:
  assumes "h_idempotencyKey req = Some key"
    and "redis_get r (IDEMPOTENCY_KEY_PREFIX @ key) now = None"
    and "postPayment (r, store) cacheOk now nid req = ((r1, store1), resp)"
  shows "(200 \<le> statusCode resp \<and> statusCode resp < 300 \<and> cacheOk \<longrightarrow>
            key \<noteq> [] \<and> isValidIdempotencyKey key \<and>
            r1 = redis_setex r (IDEMPOTENCY_KEY_PREFIX @ key) IDEMPOTENCY_TTL_SECONDS resp now) \<and>
         (\<not> (200 \<le> statusCode resp \<and> statusCode resp < 300) \<longrightarrow> r1 = r \<and> store1 = store) \<and>
         (\<not> cacheOk \<longrightarrow> r1 = r)"
proof (cases "key = [] \<or> \<not> isValidIdempotencyKey key")
  case True
  with assms show ?thesis
    by (auto simp: postPayment_def errorResponse_def errorStatus_not_2xx)
next
  case valid: False
  show ?thesis
  proof (cases "createPaymentSchema (h_body req) \<and> authorize (h_role req)")
    case False
    with assms valid errorStatus_not_2xx [of ValidationError] errorStatus_not_2xx [of ForbiddenError]
    show ?thesis
      by (auto simp: postPayment_def Let_def cachingJson_def errorResponse_def
          split: if_splits)
  next
    case True
    obtain st2 resp2 where ctl: "paymentController store req key now nid = (st2, resp2)"
      by (cases "paymentController store req key now nid")
    with assms valid True
    have eq: "resp = resp2" "store1 = st2"
      "r1 = cachingJson r cacheOk (IDEMPOTENCY_KEY_PREFIX @ key) now resp2"
      by (auto simp: postPayment_def Let_def)
    from paymentController_cases [OF ctl]
    have "\<not> (200 \<le> statusCode resp2 \<and> statusCode resp2 < 300) \<longrightarrow> st2 = store"
      by (auto simp: errorResponse_def)
    with eq valid show ?thesis
      by (auto simp: cachingJson_def)
  qed
qed

lemma postPayment_hit:
  assumes "h_idempotencyKey req = Some key"
    and "key \<noteq> []" and "isValidIdempotencyKey key"
    and "redis_get r (IDEMPOTENCY_KEY_PREFIX @ key) now = Some cached"
  shows "postPayment (r, store) cacheOk now nid req = ((r, store), cached)"
  using assms by (simp add: postPayment_def Let_def)

section \<open>Where the balance invariant is kept\<close>

text \<open>
  \<open>createDebt\<close> keeps the invariant. \<open>cancelDebt\<close> and \<open>createPayment\<close> keep it as long as
  the debts they touch are not cancelled already (the ids of the debts being distinct, as
  \<open>_id\<close> is).
\<close>

lemma outstandingOf_append:
  "outstandingOf (ds @ [d]) x =
     outstandingOf ds x +
     (if d_customerId d = x \<and> status d \<noteq> CANCELLED then outstandingAmount d else 0)"
  by (simp add: outstandingOf_def)

lemma saveDebt_ids: "map d_id (saveDebt d1 ds) = map d_id ds"
  by (induction ds) (auto simp: saveDebt_def debt_preValidate_fields)

lemma saveDebt_absent: "d_id d1 \<notin> d_id ` set ds \<Longrightarrow> saveDebt d1 ds = ds"
  by (induction ds) (auto simp: saveDebt_def)

lemma outstandingOf_Cons:
  "outstandingOf (z # ds) x =
     (if d_customerId z = x \<and> status z \<noteq> CANCELLED then outstandingAmount z else 0) +
     outstandingOf ds x"
  by (simp add: outstandingOf_def)

lemma outstandingOf_saveDebt:
  assumes "distinct (map d_id ds)" and "d \<in> set ds"
    and "d_id d1 = d_id d" and "d_customerId d1 = d_customerId d"
  shows "outstandingOf (saveDebt d1 ds) x =
           outstandingOf ds x
           - (if d_customerId d = x \<and> status d \<noteq> CANCELLED then outstandingAmount d else 0)
           + (if d_customerId d = x \<and> status d1 \<noteq> CANCELLED then outstandingAmount d1 else 0)"
proof -
  define old where
    "old = (if d_customerId d = x \<and> status d \<noteq> CANCELLED then outstandingAmount d else 0)"
  define new where
    "new = (if d_customerId d = x \<and> status d1 \<noteq> CANCELLED then outstandingAmount d1 else 0)"
  have "outstandingOf (saveDebt d1 ds) x = outstandingOf ds x - old + new"
    using assms(1,2)
  proof (induction ds)
    case Nil
    then show ?case by simp
  next
    case (Cons z rest)
    show ?case
    proof (cases "z = d")
      case True
      with Cons.prems have "d_id d1 \<notin> d_id ` set rest" by (simp add: assms(3))
      then have "saveDebt d1 rest = rest" by (rule saveDebt_absent)
      then have "saveDebt d1 (z # rest) = debt_preValidate d1 # rest"
        using True by (simp add: saveDebt_def assms(3))
      then show ?thesis
        using True
        by (simp add: outstandingOf_Cons debt_preValidate_fields assms(4) old_def new_def)
    next
      case False
      with Cons.prems have mem: "d \<in> set rest" and ne: "d_id z \<noteq> d_id d" by auto
      from ne have split: "saveDebt d1 (z # rest) = z # saveDebt d1 rest"
        by (simp add: saveDebt_def assms(3))
      from Cons.prems have "distinct (map d_id rest)" by simp
      from Cons.IH [OF this mem]
      have "outstandingOf (saveDebt d1 rest) x = outstandingOf rest x - old + new" .
      then show ?thesis
        by (simp add: split outstandingOf_Cons)
    qed
  qed
  then show ?thesis by (simp add: old_def new_def)
qed

lemma balanceInvariant_saveCustomer:
  assumes "\<And>x. x \<in> set cs \<Longrightarrow> c_id x \<noteq> c_id c1 \<Longrightarrow> debtBalance x = outstandingOf ds (c_id x)"
    and "debtBalance c1 = outstandingOf ds (c_id c1)"
  shows "balanceInvariant \<lparr>customers = saveCustomer c1 cs, debts = ds, payments = ps, auditLogs = al\<rparr>"
  using assms by (auto simp: balanceInvariant_def saveCustomer_def list_all_iff)

lemma balanceInvariant_iff:
  "balanceInvariant st = (\<forall>x\<in>set (customers st). debtBalance x = outstandingOf (debts st) (c_id x))"
  by (simp add: balanceInvariant_def list_all_iff)

lemma createDebt_preserves_balance:
  assumes "balanceInvariant st"
  shows "balanceInvariant (fst (createDebt st tenant dd uid now nid))"
proof (cases "\<not> missingRequiredFields dd \<and>
              (\<exists>c. findCustomer (customers st) (the (dd_customerId dd)) tenant = Some c \<and>
                   canAcceptDebt c (dd_totalAmount dd))")
  case False
  then have "fst (createDebt st tenant dd uid now nid) = st"
    by (auto simp: createDebt_def createDebt_session_def startTransaction_def
        abortTransaction_def split: option.splits)
  with assms show ?thesis by simp
next
  case True
  then obtain c where c: "findCustomer (customers st) (the (dd_customerId dd)) tenant = Some c"
    and ok: "canAcceptDebt c (dd_totalAmount dd)" and fields: "\<not> missingRequiredFields dd"
    by blast
  from c have cin: "c \<in> set (customers st)" and cid: "c_id c = the (dd_customerId dd)"
    using findCustomer_Some by blast+
  let ?c1 = "c\<lparr>debtBalance := debtBalance c + dd_totalAmount dd,
                lastTransactionAt := Some now, version := version c + 1\<rparr>"
  let ?d0 = "\<lparr>d_id = nid, d_companyId = tenant, d_customerId = the (dd_customerId dd),
              reference = dd_reference dd, totalAmount = dd_totalAmount dd,
              outstandingAmount = dd_totalAmount dd, status = OPEN,
              agingBucket = CURRENT, dueAt = the (dd_dueAt dd),
              items = dd_items dd, d_notes = dd_notes dd\<rparr>"
  let ?d1 = "debt_preValidate (?d0\<lparr>agingBucket := calculateAgingBucket now ?d0\<rparr>)"
  have d1: "d_customerId ?d1 = c_id c" "status ?d1 = OPEN"
    "outstandingAmount ?d1 = dd_totalAmount dd"
    by (simp_all add: debt_preValidate_def cid)
  have st': "fst (createDebt st tenant dd uid now nid) =
      \<lparr>customers = saveCustomer ?c1 (customers st), debts = debts st @ [?d1],
       payments = payments st,
       auditLogs = auditLogs st @
         [\<lparr>al_companyId = tenant, al_userId = uid, al_action = DEBT_CREATE,
           al_entity = ''Debt'', al_entityId = nid, al_timestamp = now\<rparr>]\<rparr>"
    using c ok fields
    by (simp add: createDebt_def createDebt_session_def startTransaction_def
        commitTransaction_def logAction_def incrementVersion_def Let_def
        debt_preValidate_def)
  have "balanceInvariant
      \<lparr>customers = saveCustomer ?c1 (customers st), debts = debts st @ [?d1],
       payments = payments st,
       auditLogs = auditLogs st @
         [\<lparr>al_companyId = tenant, al_userId = uid, al_action = DEBT_CREATE,
           al_entity = ''Debt'', al_entityId = nid, al_timestamp = now\<rparr>]\<rparr>"
  proof (rule balanceInvariant_saveCustomer)
    fix x assume "x \<in> set (customers st)" and "c_id x \<noteq> c_id ?c1"
    with assms d1 show "debtBalance x = outstandingOf (debts st @ [?d1]) (c_id x)"
      by (simp add: balanceInvariant_iff outstandingOf_append)
  next
    from assms cin have "debtBalance c = outstandingOf (debts st) (c_id c)"
      by (simp add: balanceInvariant_iff)
    with d1 show "debtBalance ?c1 = outstandingOf (debts st @ [?d1]) (c_id ?c1)"
      by (simp add: outstandingOf_append)
  qed
  with st' show ?thesis by simp
qed

lemma findDebtOfCompany_Some:
  "findDebtOfCompany ds i t = Some d \<Longrightarrow> d \<in> set ds \<and> d_id d = i \<and> d_companyId d = t"
  unfolding findDebtOfCompany_def
  by (induction ds) (auto split: if_splits)

lemma findCustomerById_Some:
  "findCustomerById cs i = Some c \<Longrightarrow> c \<in> set cs \<and> c_id c = i"
  unfolding findCustomerById_def
  by (induction cs) (auto split: if_splits)

lemma cancelDebt_preserves_balance:
  assumes "balanceInvariant st"
    and "distinct (map d_id (debts st))"
    and "\<And>d. findDebtOfCompany (debts st) i tenant = Some d \<Longrightarrow> status d \<noteq> CANCELLED"
  shows "balanceInvariant (fst (cancelDebt st tenant i uid now))"
proof (cases "cancelDebt st tenant i uid now")
  case (Pair st' r)
  show ?thesis
  proof (cases r)
    case (Inl e)
    with Pair cancelDebt_failure_keeps_store have "st' = st" by blast
    with Pair assms(1) show ?thesis by simp
  next
    case (Inr d')
    from Pair [unfolded Inr] obtain d cust where
      d: "findDebtOfCompany (debts st) i tenant = Some d"
      and eq: "outstandingAmount d = totalAmount d"
      and cust: "findCustomerById (customers st) (d_customerId d) = Some cust"
      and st': "st' = \<lparr>customers =
                        saveCustomer (cust\<lparr>debtBalance := debtBalance cust - totalAmount d,
                                            version := version cust + 1\<rparr>) (customers st),
                      debts = saveDebt (d\<lparr>status := CANCELLED\<rparr>) (debts st),
                      payments = payments st,
                      auditLogs = auditLogs st @
                        [\<lparr>al_companyId = tenant, al_userId = uid, al_action = DEBT_DELETE,
                          al_entity = ''Debt'', al_entityId = d_id d', al_timestamp = now\<rparr>]\<rparr>"
      by (auto simp: cancelDebt_def cancelDebt_session_def startTransaction_def
          commitTransaction_def abortTransaction_def logAction_def incrementVersion_def
          Let_def split: option.splits if_splits)
    from d have din: "d \<in> set (debts st)" using findDebtOfCompany_Some by blast
    from assms(3) [OF d] have live: "status d \<noteq> CANCELLED" .
    from cust have cin: "cust \<in> set (customers st)" and cid: "c_id cust = d_customerId d"
      using findCustomerById_Some by blast+
    have sum: "\<And>x. outstandingOf (saveDebt (d\<lparr>status := CANCELLED\<rparr>) (debts st)) x =
                 outstandingOf (debts st) x - (if d_customerId d = x then totalAmount d else 0)"
      using outstandingOf_saveDebt [OF assms(2) din, of "d\<lparr>status := CANCELLED\<rparr>"] live eq
      by simp
    have "balanceInvariant st'"
      unfolding st'
    proof (rule balanceInvariant_saveCustomer)
      fix x assume "x \<in> set (customers st)"
        and "c_id x \<noteq> c_id (cust\<lparr>debtBalance := debtBalance cust - totalAmount d,
                                    version := version cust + 1\<rparr>)"
      with assms(1) cid
      show "debtBalance x = outstandingOf (saveDebt (d\<lparr>status := CANCELLED\<rparr>) (debts st)) (c_id x)"
        by (simp add: balanceInvariant_iff sum)
    next
      from assms(1) cin have "debtBalance cust = outstandingOf (debts st) (c_id cust)"
        by (simp add: balanceInvariant_iff)
      with cid
      show "debtBalance (cust\<lparr>debtBalance := debtBalance cust - totalAmount d,
                               version := version cust + 1\<rparr>) =
            outstandingOf (saveDebt (d\<lparr>status := CANCELLED\<rparr>) (debts st))
              (c_id (cust\<lparr>debtBalance := debtBalance cust - totalAmount d,
                           version := version cust + 1\<rparr>))"
        by (simp add: sum)
    qed
    with Pair show ?thesis by simp
  qed
qed

lemma updateStatus_not_cancelled:
  "status d \<noteq> CANCELLED \<Longrightarrow> status (updateStatus d) \<noteq> CANCELLED"
  by (simp add: updateStatus_def)

lemma applyToDebts_outstandingOf:
  assumes "distinct (map d_id ds)"
    and "\<forall>a\<in>set apps. \<forall>d\<in>set ds. d_id d = debtId a \<longrightarrow> status d \<noteq> CANCELLED"
    and "applyToDebts t c ds tot apps = (ds', Inr tot')"
  shows "outstandingOf ds' x = outstandingOf ds x - (if x = c then tot' - tot else 0)"
  using assms
proof (induction apps arbitrary: ds tot)
  case Nil
  then show ?case by simp
next
  case (Cons a rest)
  from Cons.prems(3) obtain d where
    d: "findDebt ds (debtId a) t c = Some d"
    and run: "applyToDebts t c
       (saveDebt (updateStatus (d\<lparr>outstandingAmount := outstandingAmount d - app_amount a\<rparr>)) ds)
       (tot + app_amount a) rest = (ds', Inr tot')"
    by (auto split: if_splits option.splits)
  let ?d1 = "updateStatus (d\<lparr>outstandingAmount := outstandingAmount d - app_amount a\<rparr>)"
  from d have din: "d \<in> set ds" and key: "d_id d = debtId a" "d_customerId d = c"
    using findDebt_Some by blast+
  from Cons.prems(2) din key have live: "status d \<noteq> CANCELLED" by simp
  then have live1: "status ?d1 \<noteq> CANCELLED"
    by (simp add: updateStatus_not_cancelled)
  have dist: "distinct (map d_id (saveDebt ?d1 ds))"
    using Cons.prems(1) by (simp add: saveDebt_ids)
  have inv: "\<forall>b\<in>set rest. \<forall>y\<in>set (saveDebt ?d1 ds). d_id y = debtId b \<longrightarrow> status y \<noteq> CANCELLED"
  proof (intro ballI impI)
    fix b y assume b: "b \<in> set rest" and y: "y \<in> set (saveDebt ?d1 ds)" and yb: "d_id y = debtId b"
    from y have "y = debt_preValidate ?d1 \<or> y \<in> set ds"
      by (auto simp: saveDebt_def split: if_splits)
    then show "status y \<noteq> CANCELLED"
    proof
      assume "y = debt_preValidate ?d1"
      with live1 show ?thesis by (simp add: debt_preValidate_fields)
    next
      assume "y \<in> set ds"
      with Cons.prems(2) b yb show ?thesis by simp
    qed
  qed
  have step: "outstandingOf (saveDebt ?d1 ds) x =
                outstandingOf ds x - (if x = c then app_amount a else 0)"
    using outstandingOf_saveDebt [OF Cons.prems(1) din, of ?d1 x] live live1 key
    by (auto simp: updateStatus_fields)
  from Cons.IH [OF dist inv run] step show ?case by simp
qed

lemma createPayment_preserves_balance:
  assumes "balanceInvariant st"
    and "distinct (map d_id (debts st))"
    and "\<forall>a\<in>set (pd_appliedToDebts pd). \<forall>d\<in>set (debts st).
           d_id d = debtId a \<longrightarrow> status d \<noteq> CANCELLED"
  shows "balanceInvariant (fst (createPayment st tenant cid pd uid now nid))"
proof (cases "createPayment st tenant cid pd uid now nid")
  case (Pair st' r)
  show ?thesis
  proof (cases r)
    case (Inl e)
    with Pair createPayment_failure_keeps_store have "st' = st" by blast
    with Pair assms(1) show ?thesis by simp
  next
    case (Inr p)
    from createPayment_success [OF Pair [unfolded Inr]] obtain cust ds tot where
      cust: "findCustomer (customers st) cid tenant = Some cust"
      and run: "applyToDebts tenant cid (debts st) 0 (pd_appliedToDebts pd) = (ds, Inr tot)"
      and ds: "debts st' = ds"
      and cs: "customers st' =
             saveCustomer
               (cust\<lparr>debtBalance := debtBalance cust - tot,
                      creditBalance := creditBalance cust + (pd_amount pd - tot),
                      lastTransactionAt :=
                        Some (case pd_paidAt pd of Some t \<Rightarrow> t | None \<Rightarrow> now),
                      version := version cust + 1\<rparr>)
               (customers st)"
      by blast
    from cust have cin: "cust \<in> set (customers st)" and cid: "c_id cust = cid"
      using findCustomer_Some by blast+
    have sum: "\<And>x. outstandingOf ds x = outstandingOf (debts st) x - (if x = cid then tot else 0)"
      using applyToDebts_outstandingOf [OF assms(2,3) run] by simp
    from assms(1) cin have own: "debtBalance cust = outstandingOf (debts st) (c_id cust)"
      by (simp add: balanceInvariant_iff)
    have "balanceInvariant st'"
      unfolding balanceInvariant_iff ds cs
      using assms(1) own cid
      by (auto simp: balanceInvariant_iff saveCustomer_def sum)
    with Pair show ?thesis by simp
  qed
qed

section \<open>Claims about the payment service\<close>






section \<open>Claims about the debt service\<close>



text \<open>
  C10. For a request that passes the required-field test, \<open>createDebt\<close> fails
  with NotFound, creating no debt and changing nothing, whenever no customer with the
  given id is stored for the tenant. A stored customer is loaded whether \<open>isActive\<close> is
  set or not: within the credit limit the debt is created and appended to the debts.
\<close>

theorem createDebt_customer_absent:
  assumes "\<not> missingRequiredFields dd"
  shows "(findCustomer (customers st) (the (dd_customerId dd)) tenant = None \<longrightarrow>
            createDebt st tenant dd uid now nid = (st, Inl NotFoundError)) \<and>
         (\<forall>c. findCustomer (customers st) (the (dd_customerId dd)) tenant = Some c \<and>
               debtBalance c + dd_totalAmount dd \<le> creditLimit c \<longrightarrow>
               (\<exists>st' d. createDebt st tenant dd uid now nid = (st', Inr d) \<and>
                  debts st' = debts st @ [d] \<and> d_customerId d = c_id c))"
proof (intro conjI impI allI)
  assume "findCustomer (customers st) (the (dd_customerId dd)) tenant = None"
  with assms show "createDebt st tenant dd uid now nid = (st, Inl NotFoundError)"
    by (simp add: createDebt_def createDebt_session_def startTransaction_def
        abortTransaction_def)
next
  fix c
  assume h: "findCustomer (customers st) (the (dd_customerId dd)) tenant = Some c \<and>
             debtBalance c + dd_totalAmount dd \<le> creditLimit c"
  then have "c_id c = the (dd_customerId dd)"
    using findCustomer_Some by blast
  with createDebt_accepted [OF assms, of st tenant c uid now nid] h
  show "\<exists>st' d. createDebt st tenant dd uid now nid = (st', Inr d) \<and>
          debts st' = debts st @ [d] \<and> d_customerId d = c_id c"
    by fastforce
qed

theorem createDebt_customer_absent_witness:
  "createDebt ex_store 2 (ex_debt_data 100) 7 0 3 = (ex_store, Inl NotFoundError) \<and>
   findCustomer (customers ex_store) 1 2 = None"
proof -
  have h1: "\<not> missingRequiredFields (ex_debt_data 100)"
    by code_simp
  have h2: "findCustomer (customers ex_store) (the (dd_customerId (ex_debt_data 100))) 2 = None"
    by code_simp
  from createDebt_customer_absent [OF h1, of ex_store 2 7 0 3] h2
  have "createDebt ex_store 2 (ex_debt_data 100) 7 0 3 = (ex_store, Inl NotFoundError)"
    by blast
  moreover have "findCustomer (customers ex_store) 1 2 = None"
    by code_simp
  ultimately show ?thesis by simp
qed

theorem createDebt_inactive_counterexample:
  "map isActive (customers ex_store_inactive) = [False] \<and>
   snd (createDebt ex_store_inactive 1 (ex_debt_data 100) 7 0 3) \<noteq> Inl NotFoundError \<and>
   map d_id (debts ex_store_inactive) = [1, 2] \<and>
   map d_id (debts (fst (createDebt ex_store_inactive 1 (ex_debt_data 100) 7 0 3))) = [1, 2, 3] \<and>
   map debtBalance (customers (fst (createDebt ex_store_inactive 1 (ex_debt_data 100) 7 0 3))) =
     [1000]"
  by code_simp

section \<open>Claims about the debt methods\<close>




text \<open>
  C7. The aging bucket is a function of the clock reading, the due date and
  the status alone. A paid or cancelled debt is current. Otherwise, with
  \<open>daysOverdue = floor ((now - dueAt) / one day)\<close>: current below 0, 0-30 from 0 to 30,
  31-60 from 31 to 60, 61-90 from 61 to 90, 90+ above 90. An open debt due exactly 45
  days before \<open>now\<close> is in 31-60.
\<close>

theorem calculateAgingBucket_classification:
  "(status d = PAID \<or> status d = CANCELLED \<longrightarrow> calculateAgingBucket now d = CURRENT) \<and>
   (status d \<noteq> PAID \<and> status d \<noteq> CANCELLED \<longrightarrow>
      ((now - dueAt d) div 86400000 < 0 \<longrightarrow> calculateAgingBucket now d = CURRENT) \<and>
      (0 \<le> (now - dueAt d) div 86400000 \<and> (now - dueAt d) div 86400000 \<le> 30 \<longrightarrow>
         calculateAgingBucket now d = DAYS_0_30) \<and>
      (31 \<le> (now - dueAt d) div 86400000 \<and> (now - dueAt d) div 86400000 \<le> 60 \<longrightarrow>
         calculateAgingBucket now d = DAYS_31_60) \<and>
      (61 \<le> (now - dueAt d) div 86400000 \<and> (now - dueAt d) div 86400000 \<le> 90 \<longrightarrow>
         calculateAgingBucket now d = DAYS_61_90) \<and>
      (90 < (now - dueAt d) div 86400000 \<longrightarrow> calculateAgingBucket now d = DAYS_90_PLUS)) \<and>
   (status d' = status d \<and> dueAt d' = dueAt d \<longrightarrow>
      calculateAgingBucket now d' = calculateAgingBucket now d) \<and>
   (status d = OPEN \<and> dueAt d = now - 45 * 86400000 \<longrightarrow>
      calculateAgingBucket now d = DAYS_31_60)"
  by (simp add: calculateAgingBucket_def daysOverdue_def MS_PER_DAY_def)

theorem calculateAgingBucket_classification_witness:
  "calculateAgingBucket (1000 + 45 * 86400000) ex_debt = DAYS_31_60 \<and>
   calculateAgingBucket 999 ex_debt = CURRENT \<and>
   calculateAgingBucket (1000 + 31 * 86400000 - 1) ex_debt = DAYS_0_30 \<and>
   calculateAgingBucket (1000 + 91 * 86400000) ex_debt = DAYS_90_PLUS \<and>
   calculateAgingBucket (1000 + 91 * 86400000) (ex_debt\<lparr>status := PAID\<rparr>) = CURRENT"
  using calculateAgingBucket_classification [of ex_debt "1000 + 45 * 86400000" ex_debt]
        calculateAgingBucket_classification [of ex_debt 999 ex_debt]
        calculateAgingBucket_classification [of ex_debt "1000 + 31 * 86400000 - 1" ex_debt]
        calculateAgingBucket_classification [of ex_debt "1000 + 91 * 86400000" ex_debt]
        calculateAgingBucket_classification [of "ex_debt\<lparr>status := PAID\<rparr>" "1000 + 91 * 86400000" ex_debt]
  by (simp add: ex_debt_def)

section \<open>Claim about the balance invariant\<close>

text \<open>
  C3. Every customer's \<open>debtBalance\<close> should stay equal to the sum of the outstanding
  amounts of the customer's debts that are not cancelled. \<open>cancelDebt\<close> does not test the
  status of the debt: a cancelled debt still has \<open>outstandingAmount = totalAmount\<close>, so a
  second \<open>cancelDebt\<close> on it succeeds and subtracts the total from \<open>debtBalance\<close> again.
  In the example store the invariant holds at the start and after the first cancellation
  of debt 1 (balance 900, then 400); the second cancellation leaves the balance at -100
  while the debts that are not cancelled still sum to 400.
\<close>

theorem cancelDebt_twice_breaks_balance:
  "balanceInvariant ex_store \<and>
   map debtBalance (customers ex_store) = [900] \<and>
   balanceInvariant (fst (cancelDebt ex_store 1 1 7 0)) \<and>
   map status (debts (fst (cancelDebt ex_store 1 1 7 0))) = [CANCELLED, PARTIAL] \<and>
   map debtBalance (customers (fst (cancelDebt ex_store 1 1 7 0))) = [400] \<and>
   snd (cancelDebt (fst (cancelDebt ex_store 1 1 7 0)) 1 1 7 0) =
     Inr (ex_debt\<lparr>status := CANCELLED\<rparr>) \<and>
   map debtBalance
     (customers (fst (cancelDebt (fst (cancelDebt ex_store 1 1 7 0)) 1 1 7 0))) = [-100] \<and>
   outstandingOf (debts (fst (cancelDebt (fst (cancelDebt ex_store 1 1 7 0)) 1 1 7 0))) 1 = 400 \<and>
   \<not> balanceInvariant (fst (cancelDebt (fst (cancelDebt ex_store 1 1 7 0)) 1 1 7 0))"
  by code_simp

text \<open>
  The payment loop does not test the status either: a payment applied to the cancelled
  debt lowers \<open>debtBalance\<close> although the debt is outside the sum.
\<close>

lemma createPayment_on_cancelled_breaks_balance:
  "balanceInvariant (fst (cancelDebt ex_store 1 1 7 0)) \<and>
   map debtBalance
     (customers (fst (createPayment (fst (cancelDebt ex_store 1 1 7 0)) 1 1
        (ex_payment_data 100 [\<lparr>debtId = 1, app_amount = 100\<rparr>]) 7 0 10))) = [300] \<and>
   \<not> balanceInvariant
       (fst (createPayment (fst (cancelDebt ex_store 1 1 7 0)) 1 1
          (ex_payment_data 100 [\<lparr>debtId = 1, app_amount = 100\<rparr>]) 7 0 10))"
  by code_simp

section \<open>Claim about the idempotency middleware\<close>

text \<open>
  C4. Take a request with an idempotency key that has no live cache entry.
  If its response has a 2xx status and the cache write succeeds, every later request with
  the same key before the entry expires (24 hours after the first request), whatever its
  body, tenant or user, gets the identical response and changes neither the store nor
  the cache. If the response of the first request is not 2xx, nothing was cached and
  nothing was changed, so a later request with the same key is executed as a first one.
\<close>

theorem postPayment_idempotent_replay:
  assumes "h_idempotencyKey req1 = Some key"
    and "redis_get r (IDEMPOTENCY_KEY_PREFIX @ key) now1 = None"
    and "postPayment (r, store) cacheOk now1 nid1 req1 = ((r1, store1), resp1)"
  shows "(200 \<le> statusCode resp1 \<and> statusCode resp1 < 300 \<and> cacheOk \<longrightarrow>
            (\<forall>req2 now2 nid2 cacheOk2.
               h_idempotencyKey req2 = Some key \<and>
               now2 < now1 + IDEMPOTENCY_TTL_SECONDS * 1000 \<longrightarrow>
               postPayment (r1, store1) cacheOk2 now2 nid2 req2 = ((r1, store1), resp1))) \<and>
         (\<not> (200 \<le> statusCode resp1 \<and> statusCode resp1 < 300) \<longrightarrow>
            r1 = r \<and> store1 = store)"
proof (intro conjI impI allI)
  assume ok: "200 \<le> statusCode resp1 \<and> statusCode resp1 < 300 \<and> cacheOk"
  fix req2 :: http_request and now2 :: msec and nid2 :: oid and cacheOk2 :: bool
  assume second: "h_idempotencyKey req2 = Some key \<and>
                  now2 < now1 + IDEMPOTENCY_TTL_SECONDS * 1000"
  from postPayment_miss [OF assms] ok
  have key: "key \<noteq> []" "isValidIdempotencyKey key"
    and r1: "r1 = redis_setex r (IDEMPOTENCY_KEY_PREFIX @ key) IDEMPOTENCY_TTL_SECONDS resp1 now1"
    by blast+
  from r1 second have "redis_get r1 (IDEMPOTENCY_KEY_PREFIX @ key) now2 = Some resp1"
    by (simp add: redis_get_def redis_setex_def)
  with second key show "postPayment (r1, store1) cacheOk2 now2 nid2 req2 = ((r1, store1), resp1)"
    by (simp add: postPayment_hit)
next
  assume "\<not> (200 \<le> statusCode resp1 \<and> statusCode resp1 < 300)"
  with postPayment_miss [OF assms] show "r1 = r" and "store1 = store" by blast+
qed

theorem postPayment_idempotent_replay_witness:
  "statusCode (snd (postPayment ([], ex_store) True 0 10
                      (ex_request 500 [\<lparr>debtId = 2, app_amount = 300\<rparr>]))) = 201 \<and>
   postPayment
     (fst (postPayment ([], ex_store) True 0 10 (ex_request 500 [\<lparr>debtId = 2, app_amount = 300\<rparr>])))
     False 86399999 11
     ((ex_request 50 [\<lparr>debtId = 1, app_amount = 50\<rparr>])\<lparr>h_companyId := 2\<rparr>) =
   postPayment ([], ex_store) True 0 10 (ex_request 500 [\<lparr>debtId = 2, app_amount = 300\<rparr>])"
proof -
  let ?req1 = "ex_request 500 [\<lparr>debtId = 2, app_amount = 300\<rparr>]"
  let ?req2 = "(ex_request 50 [\<lparr>debtId = 1, app_amount = 50\<rparr>])\<lparr>h_companyId := 2\<rparr>"
  obtain r1 store1 resp1 where run:
    "postPayment ([], ex_store) True 0 10 ?req1 = ((r1, store1), resp1)"
    by (metis surj_pair)
  have created: "statusCode (snd (postPayment ([], ex_store) True 0 10 ?req1)) = 201"
    by code_simp
  with run have ok: "200 \<le> statusCode resp1 \<and> statusCode resp1 < 300 \<and> True" by simp
  have h1: "h_idempotencyKey ?req1 = Some ex_key"
    and h2: "h_idempotencyKey ?req2 = Some ex_key \<and>
             (86399999 :: int) < 0 + IDEMPOTENCY_TTL_SECONDS * 1000"
    by code_simp+
  have miss: "redis_get [] (IDEMPOTENCY_KEY_PREFIX @ ex_key) 0 = None"
    by (simp add: redis_get_def)
  from postPayment_idempotent_replay [OF h1 miss run] ok h2
  have "postPayment (r1, store1) False 86399999 11 ?req2 = ((r1, store1), resp1)"
    by blast
  with run created show ?thesis by simp
qed

theorem postPayment_failed_first_counterexample:
  "postPayment ([], ex_store) True 0 10 (ex_request 700 [\<lparr>debtId = 1, app_amount = 600\<rparr>]) =
     (([], ex_store), errorResponse ValidationError) \<and>
   h_idempotencyKey (ex_request 500 [\<lparr>debtId = 2, app_amount = 300\<rparr>]) =
     h_idempotencyKey (ex_request 700 [\<lparr>debtId = 1, app_amount = 600\<rparr>]) \<and>
   (1000 :: int) < 0 + IDEMPOTENCY_TTL_SECONDS * 1000 \<and>
   statusCode (snd (postPayment ([], ex_store) True 1000 10
                      (ex_request 500 [\<lparr>debtId = 2, app_amount = 300\<rparr>]))) = 201 \<and>
   snd (postPayment ([], ex_store) True 1000 10 (ex_request 500 [\<lparr>debtId = 2, app_amount = 300\<rparr>]))
     \<noteq> errorResponse ValidationError \<and>
   map debtBalance (customers ex_store) = [900] \<and>
   map debtBalance
     (customers (snd (fst (postPayment ([], ex_store) True 1000 10
        (ex_request 500 [\<lparr>debtId = 2, app_amount = 300\<rparr>]))))) = [600] \<and>
   map p_id
     (payments (snd (fst (postPayment ([], ex_store) True 1000 10
        (ex_request 500 [\<lparr>debtId = 2, app_amount = 300\<rparr>]))))) = [10]"
  by code_simp

text \<open>
  When the cache write of a successful first request fails, the retry is executed again;
  the unique index on \<open>idempotencyKey\<close> then refuses the second payment, the transaction
  is aborted and the response is a 409: no second mutation, but not the first response.
\<close>

lemma postPayment_cache_write_failed_example:
  "statusCode (snd (postPayment ([], ex_store) False 0 10
                      (ex_request 100 [\<lparr>debtId = 2, app_amount = 100\<rparr>]))) = 201 \<and>
   fst (fst (postPayment ([], ex_store) False 0 10
               (ex_request 100 [\<lparr>debtId = 2, app_amount = 100\<rparr>]))) = [] \<and>
   postPayment
     (fst (postPayment ([], ex_store) False 0 10 (ex_request 100 [\<lparr>debtId = 2, app_amount = 100\<rparr>])))
     True 1000 11 (ex_request 100 [\<lparr>debtId = 2, app_amount = 100\<rparr>]) =
     (fst (postPayment ([], ex_store) False 0 10 (ex_request 100 [\<lparr>debtId = 2, app_amount = 100\<rparr>])),
      errorResponse DuplicateKeyError)"
  by code_simp

section \<open>Claims about the sync service\<close>

text \<open>
  C8. The ledger operations never touch a stored payment: \<open>createPayment\<close>
  only appends one, \<open>createDebt\<close> and \<open>cancelDebt\<close> leave the payments as they are, and so
  does \<open>pushChanges\<close> for every changeset whose entity is not \<open>Payment\<close>. \<open>pushChanges\<close>
  keeps the ids of the payments in any case, but a changeset with entity \<open>Payment\<close>
  overwrites the fields that its data names.
\<close>

theorem payments_only_appended:
  "prefix (payments st) (payments (fst (createPayment st tenant cid pd uid now nid))) \<and>
   payments (fst (createDebt st tenant dd uid now nid)) = payments st \<and>
   payments (fst (cancelDebt st tenant did uid now)) = payments st \<and>
   map p_id (payments (fst (pushChanges st tenant cs uid))) = map p_id (payments st) \<and>
   ((\<forall>c\<in>set cs. entity c \<noteq> ''Payment'') \<longrightarrow>
      payments (fst (pushChanges st tenant cs uid)) = payments st)"
proof (intro conjI)
  show "prefix (payments st) (payments (fst (createPayment st tenant cid pd uid now nid)))"
  proof (cases "createPayment st tenant cid pd uid now nid")
    case (Pair st1 r)
    show ?thesis
    proof (cases r)
      case (Inl e)
      with Pair createPayment_failure_keeps_store have "st1 = st" by blast
      with Pair show ?thesis by simp
    next
      case (Inr p)
      from createPayment_success [OF Pair [unfolded Inr]]
      have "payments st1 = payments st @ [p]" by blast
      with Pair show ?thesis by simp
    qed
  qed
  show "payments (fst (createDebt st tenant dd uid now nid)) = payments st"
    by (simp add: createDebt_def createDebt_session_def startTransaction_def
        commitTransaction_def abortTransaction_def logAction_def Let_def
        split: option.splits)
  show "payments (fst (cancelDebt st tenant did uid now)) = payments st"
    by (simp add: cancelDebt_def cancelDebt_session_def startTransaction_def
        commitTransaction_def abortTransaction_def logAction_def Let_def
        split: option.splits)
  obtain st1 outs where loop: "pushLoop st tenant cs = (st1, outs)"
    by (cases "pushLoop st tenant cs")
  then have fst: "fst (pushChanges st tenant cs uid) = (if cs = [] then st else st1)"
    by (simp add: pushChanges_def)
  from loop have nil: "cs = [] \<Longrightarrow> st1 = st" by simp
  from pushLoop_payments [OF loop] fst nil
  show "map p_id (payments (fst (pushChanges st tenant cs uid))) = map p_id (payments st)"
    by auto
  from pushLoop_payments [OF loop] fst nil
  show "(\<forall>c\<in>set cs. entity c \<noteq> ''Payment'') \<longrightarrow>
          payments (fst (pushChanges st tenant cs uid)) = payments st"
    by auto
qed

theorem payments_only_appended_witness:
  "payments ex_store_paid = [ex_payment] \<and>
   payments (fst (createPayment ex_store_paid 1 1
      (ex_payment_data 100 [\<lparr>debtId = 2, app_amount = 100\<rparr>]) 7 5 11)) =
     [ex_payment,
      \<lparr>p_id = 11, p_companyId = 1, p_customerId = 1, amount = 100, p_method = CASH,
       appliedToDebts = [\<lparr>debtId = 2, app_amount = 100\<rparr>], addedToCreditBalance = 0,
       idempotencyKey = None, paidAt = 5, createdBy = 7, p_notes = None\<rparr>] \<and>
   payments (fst (pushChanges ex_store_paid 1
      [ex_changeset ''Customer'' 1 (Some 5) (ex_no_data\<lparr>s_name := Some ''Ali B''\<rparr>),
       ex_changeset ''Debt'' 2 None (ex_no_data\<lparr>s_reference := Some ''INV-2b''\<rparr>)] 7)) =
     [ex_payment]"
proof -
  let ?cs = "[ex_changeset ''Customer'' 1 (Some 5) (ex_no_data\<lparr>s_name := Some ''Ali B''\<rparr>),
       ex_changeset ''Debt'' 2 None (ex_no_data\<lparr>s_reference := Some ''INV-2b''\<rparr>)]"
  have h: "\<forall>c\<in>set ?cs. entity c \<noteq> ''Payment''"
    by (simp add: ex_changeset_def)
  from payments_only_appended [of ex_store_paid 1 1 "ex_payment_data 100 []" 7 0 11
         "ex_debt_data 100" 1 ?cs] h
  have a: "payments (fst (pushChanges ex_store_paid 1 ?cs 7)) = payments ex_store_paid"
    by blast
  have b: "payments ex_store_paid = [ex_payment]"
    by code_simp
  have c: "payments (fst (createPayment ex_store_paid 1 1
      (ex_payment_data 100 [\<lparr>debtId = 2, app_amount = 100\<rparr>]) 7 5 11)) =
     [ex_payment,
      \<lparr>p_id = 11, p_companyId = 1, p_customerId = 1, amount = 100, p_method = CASH,
       appliedToDebts = [\<lparr>debtId = 2, app_amount = 100\<rparr>], addedToCreditBalance = 0,
       idempotencyKey = None, paidAt = 5, createdBy = 7, p_notes = None\<rparr>]"
    by code_simp
  from a b c show ?thesis by simp
qed

theorem pushChanges_payment_counterexample:
  "payments ex_store_paid = [ex_payment] \<and>
   p_method ex_payment = CASH \<and> amount ex_payment = 500 \<and>
   payments (fst (pushChanges ex_store_paid 1
      [ex_changeset ''Payment'' 10 None
         (ex_no_data\<lparr>s_method := Some CARD, s_notes := Some ''edited''\<rparr>)] 7)) =
     [ex_payment\<lparr>p_method := CARD, p_notes := Some ''edited''\<rparr>] \<and>
   payments (fst (pushChanges ex_store_paid 1
      [ex_changeset ''Payment'' 10 None
         (ex_no_data\<lparr>s_amount := Some 999, s_appliedToDebts := Some []\<rparr>)] 7)) =
     [ex_payment\<lparr>amount := 999, appliedToDebts := []\<rparr>]"
  by code_simp

text \<open>
  C9. A changeset whose target is found and carries a version different from
  the client's is reported as a version conflict with the server's version and the
  server document as snapshot, and the store is left as it was; the changesets after it
  are processed from that same store, and the results of the batch are those of the
  changesets before it, the conflict, and those after it. Only customers carry a
  version: for a debt or a payment the test is skipped and the change is applied.
\<close>

theorem pushChanges_version_conflict:
  assumes "pushLoop st tenant before = (st1, outs1)"
    and "findDocument st1 tenant c = Some doc"
    and "documentVersion doc = Some v"
    and "cs_version c \<noteq> Some v"
    and "pushLoop st1 tenant after = (st2, outs2)"
  shows "pushOne st1 tenant c = (st1, Conflict (versionConflict c v doc)) \<and>
         cf_serverVersion (versionConflict c v doc) = Some v \<and>
         cf_serverData (versionConflict c v doc) = Some doc \<and>
         findDocument (fst (pushOne st1 tenant c)) tenant c = Some doc \<and>
         pushChanges st tenant (before @ c # after) uid =
           (st2, Inr \<lparr>applied = appliedOf outs1 @ appliedOf outs2,
                      conflicts = conflictsOf outs1 @ versionConflict c v doc # conflictsOf outs2\<rparr>)"
proof -
  have one: "pushOne st1 tenant c = (st1, Conflict (versionConflict c v doc))"
    by (rule pushOne_version_conflict [OF assms(2,3,4)])
  have "pushLoop st tenant (before @ c # after) =
          (st2, outs1 @ Conflict (versionConflict c v doc) # outs2)"
    using assms(1,5) one by (simp add: pushLoop_append)
  then have "pushChanges st tenant (before @ c # after) uid =
           (st2, Inr \<lparr>applied = appliedOf outs1 @ appliedOf outs2,
                      conflicts = conflictsOf outs1 @ versionConflict c v doc # conflictsOf outs2\<rparr>)"
    by (simp add: pushChanges_def appliedOf_append conflictsOf_append)
  with one assms(2) show ?thesis
    by (simp add: versionConflict_def)
qed

theorem pushChanges_version_conflict_witness:
  "pushChanges ex_store 1
     [ex_changeset ''Customer'' 1 (Some 3) (ex_no_data\<lparr>s_creditLimit := Some 5000\<rparr>),
      ex_changeset ''Customer'' 1 (Some 4) (ex_no_data\<lparr>s_name := Some ''Ali B''\<rparr>)] 7 =
     (ex_store\<lparr>customers := [ex_customer\<lparr>c_name := ''Ali B'', version := 5\<rparr>]\<rparr>,
      Inr \<lparr>applied = [\<lparr>ap_entityId = 1, ap_entity = ''Customer'', ap_newVersion = Some 5\<rparr>],
           conflicts =
             [\<lparr>cf_entityId = 1, cf_entity = ''Customer'', cf_reason = VersionMismatch,
               cf_serverVersion = Some 4, cf_clientVersion = Some 3,
               cf_serverData = Some (CustomerDoc ex_customer), cf_error = False\<rparr>]\<rparr>)"
proof -
  let ?c = "ex_changeset ''Customer'' 1 (Some 3) (ex_no_data\<lparr>s_creditLimit := Some 5000\<rparr>)"
  let ?rest = "[ex_changeset ''Customer'' 1 (Some 4) (ex_no_data\<lparr>s_name := Some ''Ali B''\<rparr>)]"
  have h1: "pushLoop ex_store 1 [] = (ex_store, [])" by simp
  have h2: "findDocument ex_store 1 ?c = Some (CustomerDoc ex_customer)"
    by code_simp
  have h3: "documentVersion (CustomerDoc ex_customer) = Some 4"
    by code_simp
  have h4: "cs_version ?c \<noteq> Some 4"
    by code_simp
  have h5: "pushLoop ex_store 1 ?rest =
              (ex_store\<lparr>customers := [ex_customer\<lparr>c_name := ''Ali B'', version := 5\<rparr>]\<rparr>,
               [Applied \<lparr>ap_entityId = 1, ap_entity = ''Customer'', ap_newVersion = Some 5\<rparr>])"
    by code_simp
  have v: "versionConflict ?c 4 (CustomerDoc ex_customer) =
             \<lparr>cf_entityId = 1, cf_entity = ''Customer'', cf_reason = VersionMismatch,
               cf_serverVersion = Some 4, cf_clientVersion = Some 3,
               cf_serverData = Some (CustomerDoc ex_customer), cf_error = False\<rparr>"
    by code_simp
  from pushChanges_version_conflict [OF h1 h2 h3 h4 h5, of 7] v show ?thesis
    by simp
qed

theorem pushChanges_debt_version_counterexample:
  "findDocument ex_store 1
     (ex_changeset ''Debt'' 1 (Some 3) (ex_no_data\<lparr>s_outstandingAmount := Some 100\<rparr>)) =
     Some (DebtDoc ex_debt) \<and>
   documentVersion (DebtDoc ex_debt) \<noteq> Some 3 \<and>
   pushChanges ex_store 1
     [ex_changeset ''Debt'' 1 (Some 3) (ex_no_data\<lparr>s_outstandingAmount := Some 100\<rparr>)] 7 =
     (ex_store\<lparr>debts := [ex_debt\<lparr>outstandingAmount := 100\<rparr>, ex_debt2]\<rparr>,
      Inr \<lparr>applied = [\<lparr>ap_entityId = 1, ap_entity = ''Debt'', ap_newVersion = None\<rparr>],
           conflicts = []\<rparr>)"
  by code_simp

end
